theory Spec2Isabelle
  imports Main
begin

section \<open>The relational store\<close>

text \<open>
  The transaction layer of the e-commerce application
  (\<^verbatim>\<open>transactions/transaction_manager.py\<close>) talks to a relational store through
  parameterised SQL statements. Money is a decimal column of the store; it is modelled
  as an integer number of the smallest currency unit, so that sums, differences and
  products are exact. A row is a record of the columns the statements of the
  transaction layer read or write, a table with a primary key is a map from the key to
  the row, and the two tables that are only appended to and scanned are lists of rows.
\<close>

text \<open>
  Modelled from the spec: the declarations of the tables Customers, Products, Orders and
  OrderItems are not part of the source; the rows below hold the columns that the
  statements of the transaction layer name. Price may hold NULL (\<open>None\<close>): the
  Product entity is built with \<^verbatim>\<open>price=None\<close> by default and the repositories insert
  the attribute as it is. The columns of TransactionLog are those of the
  \<^verbatim>\<open>CREATE TABLE\<close> in \<^verbatim>\<open>_ensure_transaction_log_table\<close>, without the generated
  key and timestamp, which nothing reads.
\<close>

record product_row =
  InStock :: bool
  Price :: "int option"

record order_row =
  CustomerID :: int
  TotalAmount :: int
  OrderStatus :: string

record order_item_row =
  OrderID :: int
  ProductID :: int
  Quantity :: int
  UnitPrice :: int

record transaction_log_row =
  FromCustomerID :: int
  ToCustomerID :: int
  Amount :: int

text \<open>
  Modelled from the spec: the tables, for the same reason. Customers maps CustomerID to
  the CreditLimit column, which may hold NULL: \<^verbatim>\<open>debit_source_customer\<close> reads it as
  \<^verbatim>\<open>result[0] or 0\<close>. Orders has an identity column: \<open>OrdersIdentity\<close> is the last
  value the store generated for it; it is kept with the tables, so that a rollback
  restores it with them. TransactionLog is \<open>None\<close> while the table does not exist,
  and \<open>MayCreateTable\<close> tells whether the store lets the application create a table:
  \<^verbatim>\<open>_ensure_transaction_log_table\<close> expects the creation to fail at times and
  swallows the failure.
\<close>

record db =
  Customers :: "int \<rightharpoonup> int option"
  Products :: "int \<rightharpoonup> product_row"
  Orders :: "int \<rightharpoonup> order_row"
  OrdersIdentity :: int
  OrderItems :: "order_item_row list"
  TransactionLog :: "transaction_log_row list option"
  MayCreateTable :: bool

text \<open>
  The exceptions the transaction layer can meet. Every \<^verbatim>\<open>ValueError\<close> of the source
  carries a formatted message; the message is kept as a value with the numbers that the
  f-string interpolates. \<open>TypeError\<close> is what Python raises for \<^verbatim>\<open>None[0]\<close> and for
  \<^verbatim>\<open>None * quantity\<close>; \<open>IntegrityError\<close> and \<open>ProgrammingError\<close> are the driver's
  errors for a violated foreign key and for a statement on a table that does not exist.
\<close>

datatype message =
    CustomerDoesNotExist int
  | InsufficientCredit int int
  | ProductDoesNotExist int
  | ProductOutOfStock int
  | OrderDoesNotExist int
  | OrderAlreadyCancelled

datatype exn = ValueError message | TypeError | IntegrityError | ProgrammingError

text \<open>
  What the process prints on standard output, and the process as the transaction layer
  sees it: the committed contents of the store (what every later connection reads), the
  number of connections opened and closed so far, and the lines printed.
\<close>

datatype printed =
    TransactionFailed exn
  | OrderCancellationFailed exn
  | AmountMustBePositive
  | SuccessfullyTransferred int int int
  | TransferFailed

record store =
  committed :: db
  connections_opened :: nat
  connections_closed :: nat
  stdout :: "printed list"

text \<open>
  \<^verbatim>\<open>pyodbc.connect(...)\<close> followed by \<^verbatim>\<open>connection.cursor()\<close>: the connection is counted
  and the cursor starts from the committed contents. With manual transaction control the
  statements executed on the cursor change a working copy only; \<^verbatim>\<open>connection.commit()\<close>
  makes the working copy the committed contents, \<^verbatim>\<open>connection.rollback()\<close> drops it, and
  \<^verbatim>\<open>connection.close()\<close> counts the connection as closed.
\<close>

definition connect :: "store \<Rightarrow> db \<times> store" where
  "connect s = (committed s, s\<lparr>connections_opened := connections_opened s + 1\<rparr>)"

definition commit :: "db \<Rightarrow> store \<Rightarrow> store" where
  "commit cursor s = s\<lparr>committed := cursor\<rparr>"

definition rollback :: "db \<Rightarrow> store \<Rightarrow> store" where
  "rollback cursor s = s"

definition close :: "store \<Rightarrow> store" where
  "close s = s\<lparr>connections_closed := connections_closed s + 1\<rparr>"

section \<open>TransactionManager\<close>

text \<open>
  An operation is a callable taking the cursor and the extra arguments; it either
  returns a result or raises, and in both cases leaves the working copy as its
  statements changed it.
\<close>

type_synonym ('a, 'r) operation = "db \<Rightarrow> 'a \<Rightarrow> (exn + 'r) \<times> db"

text \<open>
  The \<^verbatim>\<open>for operation in operations\<close> loop of \<^verbatim>\<open>execute_in_transaction\<close>, with the
  list \<^verbatim>\<open>results\<close> as accumulator: the first operation that raises ends the loop.
\<close>

fun run_operations ::
  "('a, 'r) operation list \<Rightarrow> db \<Rightarrow> 'a \<Rightarrow> 'r list \<Rightarrow> (exn + 'r list) \<times> db" where
  "run_operations [] cursor args results = (Inr results, cursor)"
| "run_operations (operation # operations) cursor args results =
     (case operation cursor args of
        (Inl e, cursor') \<Rightarrow> (Inl e, cursor')
      | (Inr result, cursor') \<Rightarrow> run_operations operations cursor' args (results @ [result]))"

definition execute_in_transaction ::
  "('a, 'r) operation list \<Rightarrow> 'a \<Rightarrow> store \<Rightarrow> (exn + 'r list) \<times> store" where
  "execute_in_transaction operations args s =
     (let (cursor, s1) = connect s in
      case run_operations operations cursor args [] of
        (Inr results, cursor') \<Rightarrow> (Inr results, close (commit cursor' s1))
      | (Inl e, cursor') \<Rightarrow> (Inl e, close (rollback cursor' s1)))"

text \<open>
  \<open>completes operations args cursor results cursor'\<close>: started on \<open>cursor\<close>, every
  operation of the list, run in order, returns without raising; \<open>results\<close> are the values
  returned, in the order of the operations, and \<open>cursor'\<close> is the working copy at the end.
\<close>

inductive completes ::
  "('a, 'r) operation list \<Rightarrow> 'a \<Rightarrow> db \<Rightarrow> 'r list \<Rightarrow> db \<Rightarrow> bool" where
  completes_Nil: "completes [] args cursor [] cursor"
| completes_Cons:
    "operation cursor args = (Inr result, cursor1) \<Longrightarrow>
     completes operations args cursor1 results cursor2 \<Longrightarrow>
     completes (operation # operations) args cursor (result # results) cursor2"

code_pred completes .

section \<open>The SQL statements of the transaction layer\<close>

text \<open>
  \<^verbatim>\<open>UPDATE Customers SET CreditLimit = CreditLimit - ? WHERE CustomerID = ?\<close> and its
  twin with \<^verbatim>\<open>+\<close>: \<open>f\<close> is the new value as a function of the old one. No row is
  changed when the customer does not exist, and NULL stays NULL (arithmetic on NULL is
  NULL).
\<close>

definition UPDATE_Customers_CreditLimit :: "(int \<Rightarrow> int) \<Rightarrow> int \<Rightarrow> db \<Rightarrow> db" where
  "UPDATE_Customers_CreditLimit f customer_id cursor =
     (case Customers cursor customer_id of
        None \<Rightarrow> cursor
      | Some credit \<Rightarrow>
          cursor\<lparr>Customers := (Customers cursor)(customer_id \<mapsto> map_option f credit)\<rparr>)"

text \<open>
  \<^verbatim>\<open>INSERT INTO TransactionLog (FromCustomerID, ToCustomerID, Amount, TransactionDate)\<close>:
  the statement fails when the table does not exist, and, by the two foreign keys the
  table is created with, when one of the customers does not exist.
\<close>

definition INSERT_TransactionLog :: "transaction_log_row \<Rightarrow> db \<Rightarrow> (exn + unit) \<times> db" where
  "INSERT_TransactionLog row cursor =
     (case TransactionLog cursor of
        None \<Rightarrow> (Inl ProgrammingError, cursor)
      | Some rows \<Rightarrow>
          if Customers cursor (FromCustomerID row) = None \<or>
             Customers cursor (ToCustomerID row) = None
          then (Inl IntegrityError, cursor)
          else (Inr (), cursor\<lparr>TransactionLog := Some (rows @ [row])\<rparr>))"

text \<open>
  \<^verbatim>\<open>IF NOT EXISTS (... TABLE_NAME = 'TransactionLog') BEGIN CREATE TABLE TransactionLog
  (...) END\<close>: nothing happens when the table exists; when it does not, the table is
  created empty, or the statement fails where the store does not allow the creation.
\<close>

definition CREATE_TransactionLog_IF_NOT_EXISTS :: "db \<Rightarrow> exn + db" where
  "CREATE_TransactionLog_IF_NOT_EXISTS cursor =
     (case TransactionLog cursor of
        None \<Rightarrow>
          if MayCreateTable cursor then Inr (cursor\<lparr>TransactionLog := Some []\<rparr>)
          else Inl ProgrammingError
      | Some rows \<Rightarrow> Inr cursor)"

text \<open>
  \<^verbatim>\<open>INSERT INTO Orders (CustomerID, TotalAmount, OrderStatus) VALUES (?, 0, ?);
  SELECT SCOPE_IDENTITY();\<close> returns the identity value generated for the new row.
\<close>

definition INSERT_Orders :: "order_row \<Rightarrow> db \<Rightarrow> int \<times> db" where
  "INSERT_Orders row cursor =
     (let order_id = OrdersIdentity cursor + 1
      in (order_id,
          cursor\<lparr>Orders := (Orders cursor)(order_id \<mapsto> row), OrdersIdentity := order_id\<rparr>))"

definition INSERT_OrderItems :: "order_item_row \<Rightarrow> db \<Rightarrow> db" where
  "INSERT_OrderItems row cursor = cursor\<lparr>OrderItems := OrderItems cursor @ [row]\<rparr>"

definition UPDATE_Orders_TotalAmount :: "int \<Rightarrow> int \<Rightarrow> db \<Rightarrow> db" where
  "UPDATE_Orders_TotalAmount total_amount order_id cursor =
     (case Orders cursor order_id of
        None \<Rightarrow> cursor
      | Some row \<Rightarrow>
          cursor\<lparr>Orders := (Orders cursor)(order_id \<mapsto> row\<lparr>TotalAmount := total_amount\<rparr>)\<rparr>)"

definition UPDATE_Orders_OrderStatus :: "string \<Rightarrow> int \<Rightarrow> db \<Rightarrow> db" where
  "UPDATE_Orders_OrderStatus status order_id cursor =
     (case Orders cursor order_id of
        None \<Rightarrow> cursor
      | Some row \<Rightarrow>
          cursor\<lparr>Orders := (Orders cursor)(order_id \<mapsto> row\<lparr>OrderStatus := status\<rparr>)\<rparr>)"

definition UPDATE_Products_InStock :: "bool \<Rightarrow> int \<Rightarrow> db \<Rightarrow> db" where
  "UPDATE_Products_InStock flag product_id cursor =
     (case Products cursor product_id of
        None \<Rightarrow> cursor
      | Some row \<Rightarrow>
          cursor\<lparr>Products := (Products cursor)(product_id \<mapsto> row\<lparr>InStock := flag\<rparr>)\<rparr>)"

text \<open>\<^verbatim>\<open>SELECT ProductID, Quantity FROM OrderItems WHERE OrderID = ?\<close>, all rows fetched.\<close>

definition SELECT_OrderItems :: "int \<Rightarrow> db \<Rightarrow> order_item_row list" where
  "SELECT_OrderItems order_id cursor = filter (\<lambda>row. OrderID row = order_id) (OrderItems cursor)"

section \<open>TransactionService: credit transfer\<close>

text \<open>
  \<^verbatim>\<open>_ensure_transaction_log_table\<close> opens a connection of its own (no
  \<^verbatim>\<open>autocommit\<close> is set on it), executes the creation and calls
  \<^verbatim>\<open>connection.commit()\<close>; when the statement raises, the bare \<^verbatim>\<open>except: pass\<close>
  swallows the exception and nothing is committed. The connection is closed on both
  paths.
\<close>

definition ensure_transaction_log_table :: "store \<Rightarrow> store" where
  "ensure_transaction_log_table s =
     (let (cursor, s1) = connect s in
      case CREATE_TransactionLog_IF_NOT_EXISTS cursor of
        Inr cursor' \<Rightarrow> close (commit cursor' s1)
      | Inl e \<Rightarrow> close s1)"

text \<open>
  The three steps of \<^verbatim>\<open>transfer_customer_credit\<close>. \<^verbatim>\<open>result[0] or 0\<close> reads a
  NULL credit as 0. The amount is an exact number of currency units here, like the
  credit it is compared with; the source receives it as a Python float, and an amount
  that has no exact binary representation can compare greater than the decimal credit it
  was typed as, in which case the source refuses a transfer that is accepted here.
\<close>

definition debit_source_customer :: "db \<Rightarrow> int \<Rightarrow> int \<Rightarrow> (exn + unit) \<times> db" where
  "debit_source_customer cursor from_id amt =
     (case Customers cursor from_id of
        None \<Rightarrow> (Inl (ValueError (CustomerDoesNotExist from_id)), cursor)
      | Some result \<Rightarrow>
          (let current_credit = (case result of None \<Rightarrow> 0 | Some credit \<Rightarrow> credit)
           in if current_credit < amt
              then (Inl (ValueError (InsufficientCredit current_credit amt)), cursor)
              else (Inr (), UPDATE_Customers_CreditLimit (\<lambda>credit. credit - amt) from_id cursor)))"

definition credit_target_customer :: "db \<Rightarrow> int \<Rightarrow> int \<Rightarrow> (exn + unit) \<times> db" where
  "credit_target_customer cursor to_id amt =
     (Inr (), UPDATE_Customers_CreditLimit (\<lambda>credit. credit + amt) to_id cursor)"

definition log_transaction :: "db \<Rightarrow> int \<Rightarrow> int \<Rightarrow> int \<Rightarrow> (exn + unit) \<times> db" where
  "log_transaction cursor from_id to_id amt =
     INSERT_TransactionLog
       \<lparr>FromCustomerID = from_id, ToCustomerID = to_id, Amount = amt\<rparr> cursor"

definition transfer_customer_credit :: "int \<Rightarrow> int \<Rightarrow> int \<Rightarrow> store \<Rightarrow> bool \<times> store" where
  "transfer_customer_credit from_customer_id to_customer_id amount s =
     (let s1 = ensure_transaction_log_table s;
          operations =
            [\<lambda>cursor args. debit_source_customer cursor from_customer_id amount,
             \<lambda>cursor args. credit_target_customer cursor to_customer_id amount,
             \<lambda>cursor args. log_transaction cursor from_customer_id to_customer_id amount]
      in case execute_in_transaction operations () s1 of
           (Inr results, s2) \<Rightarrow> (True, s2)
         | (Inl e, s2) \<Rightarrow> (False, s2\<lparr>stdout := stdout s2 @ [TransactionFailed e]\<rparr>))"

text \<open>
  The console entry \<^verbatim>\<open>ConsoleUI.transfer_credit\<close>, after the three inputs have been
  parsed: it is the caller of \<^verbatim>\<open>transfer_customer_credit\<close> and holds the check of the
  amount.
\<close>

definition transfer_credit :: "int \<Rightarrow> int \<Rightarrow> int \<Rightarrow> store \<Rightarrow> store" where
  "transfer_credit from_customer_id to_customer_id amount s =
     (if amount \<le> 0 then s\<lparr>stdout := stdout s @ [AmountMustBePositive]\<rparr>
      else case transfer_customer_credit from_customer_id to_customer_id amount s of
             (success, s') \<Rightarrow>
               if success
               then s'\<lparr>stdout := stdout s' @
                      [SuccessfullyTransferred amount from_customer_id to_customer_id]\<rparr>
               else s'\<lparr>stdout := stdout s' @ [TransferFailed]\<rparr>)"

text \<open>The balance as the transfer reads it, and the audit entries recorded so far.\<close>

definition balance :: "db \<Rightarrow> int \<Rightarrow> int" where
  "balance d customer_id =
     (case Customers d customer_id of
        Some (Some credit) \<Rightarrow> credit
      | _ \<Rightarrow> 0)"

definition audit_entries :: "db \<Rightarrow> transaction_log_row list" where
  "audit_entries d = (case TransactionLog d of None \<Rightarrow> [] | Some rows \<Rightarrow> rows)"

section \<open>TransactionService: order placement\<close>

text \<open>One element of \<^verbatim>\<open>order_items_data\<close>: a dict with the two keys the code reads.\<close>

record order_item_data =
  product_id :: int
  quantity :: int

fun check_inventory_and_reserve :: "db \<Rightarrow> order_item_data list \<Rightarrow> exn + unit" where
  "check_inventory_and_reserve cursor [] = Inr ()"
| "check_inventory_and_reserve cursor (item # items_data) =
     (case Products cursor (product_id item) of
        None \<Rightarrow> Inl (ValueError (ProductDoesNotExist (product_id item)))
      | Some result \<Rightarrow>
          if \<not> InStock result then Inl (ValueError (ProductOutOfStock (product_id item)))
          else check_inventory_and_reserve cursor items_data)"

text \<open>
  Step 3 of \<^verbatim>\<open>place_order_with_inventory_check\<close>, the loop over the items with
  \<^verbatim>\<open>total_amount\<close> as accumulator; it is named after the nested function whose body
  it repeats (the nested \<^verbatim>\<open>create_order_record\<close>, \<^verbatim>\<open>create_order_items\<close> and
  \<^verbatim>\<open>update_product_inventory\<close> and the list \<^verbatim>\<open>operations\<close> are never called by
  the method). \<^verbatim>\<open>cursor.fetchone()[0]\<close> raises TypeError when no row is found, and so
  does \<^verbatim>\<open>price * quantity\<close> when the price is NULL.
\<close>

fun create_order_items ::
  "db \<Rightarrow> int \<Rightarrow> order_item_data list \<Rightarrow> int \<Rightarrow> (exn + int) \<times> db" where
  "create_order_items cursor order_id [] total_amount = (Inr total_amount, cursor)"
| "create_order_items cursor order_id (item # items_data) total_amount =
     (case Products cursor (product_id item) of
        None \<Rightarrow> (Inl TypeError, cursor)
      | Some result \<Rightarrow>
          (case Price result of
             None \<Rightarrow> (Inl TypeError, cursor)
           | Some price \<Rightarrow>
               (let item_total = price * quantity item;
                    cursor' = INSERT_OrderItems
                      \<lparr>OrderID = order_id, ProductID = product_id item,
                       Quantity = quantity item, UnitPrice = price\<rparr> cursor
                in create_order_items cursor' order_id items_data (total_amount + item_total))))"

definition place_order_with_inventory_check ::
  "int \<Rightarrow> order_item_data list \<Rightarrow> store \<Rightarrow> (exn + int) \<times> store" where
  "place_order_with_inventory_check customer_id order_items_data s =
     (let (cursor, s1) = connect s in
      case check_inventory_and_reserve cursor order_items_data of
        Inl e \<Rightarrow> (Inl e, close (rollback cursor s1))
      | Inr u \<Rightarrow>
          (let (order_id, cursor1) = INSERT_Orders
                 \<lparr>CustomerID = customer_id, TotalAmount = 0, OrderStatus = ''processing''\<rparr> cursor
           in case create_order_items cursor1 order_id order_items_data 0 of
                (Inl e, cursor2) \<Rightarrow> (Inl e, close (rollback cursor2 s1))
              | (Inr total_amount, cursor2) \<Rightarrow>
                  (let cursor3 = UPDATE_Orders_TotalAmount total_amount order_id cursor2
                   in (Inr order_id, close (commit cursor3 s1)))))"

text \<open>
  The identity value the next insertion into Orders will generate is not in use: no
  order has it as key and no order item refers to it.
\<close>

definition identity_fresh :: "db \<Rightarrow> bool" where
  "identity_fresh d \<longleftrightarrow>
     Orders d (OrdersIdentity d + 1) = None \<and>
     list_all (\<lambda>row. OrderID row \<noteq> OrdersIdentity d + 1) (OrderItems d)"

section \<open>TransactionService: order cancellation\<close>

definition get_order_details :: "db \<Rightarrow> int \<Rightarrow> exn + int \<times> int" where
  "get_order_details cursor oid =
     (case Orders cursor oid of
        None \<Rightarrow> Inl (ValueError (OrderDoesNotExist oid))
      | Some result \<Rightarrow>
          if OrderStatus result = ''cancelled'' then Inl (ValueError OrderAlreadyCancelled)
          else Inr (CustomerID result, TotalAmount result))"

definition update_order_status :: "db \<Rightarrow> int \<Rightarrow> db" where
  "update_order_status cursor oid = UPDATE_Orders_OrderStatus ''cancelled'' oid cursor"

definition refund_customer_credit :: "db \<Rightarrow> int \<Rightarrow> int \<Rightarrow> db" where
  "refund_customer_credit cursor cust_id amt =
     UPDATE_Customers_CreditLimit (\<lambda>credit. credit + amt) cust_id cursor"

text \<open>The \<^verbatim>\<open>for item in items\<close> loop of \<^verbatim>\<open>update_inventory\<close>, and the function itself.\<close>

fun mark_in_stock :: "db \<Rightarrow> order_item_row list \<Rightarrow> db" where
  "mark_in_stock cursor [] = cursor"
| "mark_in_stock cursor (item # items) =
     mark_in_stock (UPDATE_Products_InStock True (ProductID item) cursor) items"

definition update_inventory :: "db \<Rightarrow> int \<Rightarrow> db" where
  "update_inventory cursor oid = mark_in_stock cursor (SELECT_OrderItems oid cursor)"

definition cancel_order_with_refund :: "int \<Rightarrow> store \<Rightarrow> bool \<times> store" where
  "cancel_order_with_refund order_id s =
     (let (cursor, s1) = connect s in
      case get_order_details cursor order_id of
        Inl e \<Rightarrow>
          (let s2 = rollback cursor s1
           in (False, close (s2\<lparr>stdout := stdout s2 @ [OrderCancellationFailed e]\<rparr>)))
      | Inr (customer_id, total_amount) \<Rightarrow>
          (let cursor1 = update_order_status cursor order_id;
               cursor2 = refund_customer_credit cursor1 customer_id total_amount;
               cursor3 = update_inventory cursor2 order_id
           in (True, close (commit cursor3 s1))))"

section \<open>A sample store\<close>

text \<open>
  A small store on which the functions are run: customer 1 holds 100, customer 2 holds
  20 and the credit of customer 3 is NULL; products 10 and 11 are in stock, product 12 is
  not, and product 13 is in stock with a NULL price; order 1 (of customer 1, total 2500)
  and order 2 (of customer 3, total 700) are being processed and order 3 is cancelled.
  The TransactionLog table does not exist yet, and the store lets the application create
  it.
\<close>

definition shop :: db where
  "shop =
     \<lparr>Customers = [1 \<mapsto> Some 100, 2 \<mapsto> Some 20, 3 \<mapsto> None],
      Products = [10 \<mapsto> \<lparr>InStock = True, Price = Some 1000\<rparr>,
                  11 \<mapsto> \<lparr>InStock = True, Price = Some 500\<rparr>,
                  12 \<mapsto> \<lparr>InStock = False, Price = Some 700\<rparr>,
                  13 \<mapsto> \<lparr>InStock = True, Price = None\<rparr>],
      Orders = [1 \<mapsto> \<lparr>CustomerID = 1, TotalAmount = 2500, OrderStatus = ''processing''\<rparr>,
                2 \<mapsto> \<lparr>CustomerID = 3, TotalAmount = 700, OrderStatus = ''processing''\<rparr>,
                3 \<mapsto> \<lparr>CustomerID = 2, TotalAmount = 500, OrderStatus = ''cancelled''\<rparr>],
      OrdersIdentity = 3,
      OrderItems = [\<lparr>OrderID = 1, ProductID = 10, Quantity = 2, UnitPrice = 1000\<rparr>,
                    \<lparr>OrderID = 1, ProductID = 11, Quantity = 1, UnitPrice = 500\<rparr>,
                    \<lparr>OrderID = 2, ProductID = 12, Quantity = 1, UnitPrice = 700\<rparr>,
                    \<lparr>OrderID = 3, ProductID = 11, Quantity = 1, UnitPrice = 500\<rparr>],
      TransactionLog = None,
      MayCreateTable = True\<rparr>"

definition console :: store where
  "console =
     \<lparr>committed = shop, connections_opened = 0, connections_closed = 0, stdout = []\<rparr>"


text \<open>
  Two operations to run the coordinator on: \<open>withdraw\<close> debits a customer and returns the
  balance left, \<open>read_balance\<close> only reads.
\<close>

definition read_balance :: "int \<Rightarrow> (unit, int) operation" where
  "read_balance customer_id cursor args = (Inr (balance cursor customer_id), cursor)"

definition withdraw :: "int \<Rightarrow> int \<Rightarrow> (unit, int) operation" where
  "withdraw customer_id amt cursor args =
     (case debit_source_customer cursor customer_id amt of
        (Inl e, cursor') \<Rightarrow> (Inl e, cursor')
      | (Inr u, cursor') \<Rightarrow> (Inr (balance cursor' customer_id), cursor'))"

section \<open>Properties of the transaction coordinator\<close>

lemma run_operations_completes:
  "completes operations args cursor results cursor' \<Longrightarrow>
   run_operations operations cursor args acc = (Inr (acc @ results), cursor')"
  by (induction arbitrary: acc rule: completes.induct) simp_all

lemma run_operations_raises:
  "completes before args cursor results cursor1 \<Longrightarrow>
   operation cursor1 args = (Inl e, cursor2) \<Longrightarrow>
   run_operations (before @ operation # after) cursor args acc = (Inl e, cursor2)"
  by (induction arbitrary: acc rule: completes.induct) simp_all

text \<open>
  Every run is of one of the two kinds: all operations complete, or there is a first
  operation that raises after the ones before it completed.
\<close>

lemma completes_or_raises:
  "(\<exists>results cursor'. completes operations args cursor results cursor') \<or>
   (\<exists>before operation after results cursor1 e cursor2.
      operations = before @ operation # after \<and>
      completes before args cursor results cursor1 \<and>
      operation cursor1 args = (Inl e, cursor2))"
proof (induction operations arbitrary: cursor)
  case Nil
  show ?case by (blast intro: completes_Nil)
next
  case (Cons operation operations)
  obtain outcome cursor1 where step: "operation cursor args = (outcome, cursor1)"
    by (cases "operation cursor args")
  show ?case
  proof (cases outcome)
    case (Inl e)
    with step have "operation # operations = [] @ operation # operations \<and>
        completes [] args cursor [] cursor \<and> operation cursor args = (Inl e, cursor1)"
      by (simp add: completes_Nil)
    then show ?thesis by blast
  next
    case (Inr result)
    from Cons.IH [of cursor1] show ?thesis
    proof
      assume "\<exists>results cursor'. completes operations args cursor1 results cursor'"
      then obtain results cursor' where "completes operations args cursor1 results cursor'"
        by blast
      with step Inr have "completes (operation # operations) args cursor (result # results) cursor'"
        by (simp add: completes_Cons)
      then show ?thesis by blast
    next
      assume "\<exists>before operation' after results cursor2 e cursor3.
        operations = before @ operation' # after \<and>
        completes before args cursor1 results cursor2 \<and>
        operation' cursor2 args = (Inl e, cursor3)"
      then obtain before operation' after results cursor2 e cursor3 where
        split: "operations = before @ operation' # after" and
        pre: "completes before args cursor1 results cursor2" and
        raises: "operation' cursor2 args = (Inl e, cursor3)"
        by blast
      from step Inr pre
      have "completes (operation # before) args cursor (result # results) cursor2"
        by (simp add: completes_Cons)
      moreover from split
      have "operation # operations = (operation # before) @ operation' # after"
        by simp
      ultimately show ?thesis using raises by blast
    qed
  qed
qed

text \<open>
  C1. If every operation given to \<^verbatim>\<open>execute_in_transaction\<close> completes without raising,
  the working copy is committed and the list of the operations' results is returned in
  the order of the operations. If an operation raises after the ones before it completed,
  the committed contents are those from before the call (the effects of the earlier
  operations and of the failing one are dropped) and the exception that reaches the caller
  is the very exception the operation raised. In both cases one connection was opened and
  one closed.
\<close>

theorem execute_in_transaction_commits_or_rolls_back:
  "(completes operations args (committed s) results cursor' \<longrightarrow>
      execute_in_transaction operations args s =
        (Inr results,
         s\<lparr>committed := cursor',
           connections_opened := connections_opened s + 1,
           connections_closed := connections_closed s + 1\<rparr>)) \<and>
   (completes before args (committed s) earlier reached \<and>
    operation reached args = (Inl e, left) \<longrightarrow>
      execute_in_transaction (before @ operation # after) args s =
        (Inl e,
         s\<lparr>connections_opened := connections_opened s + 1,
           connections_closed := connections_closed s + 1\<rparr>))"
proof (intro conjI impI)
  assume "completes operations args (committed s) results cursor'"
  from run_operations_completes [OF this, of "[]"]
  show "execute_in_transaction operations args s =
        (Inr results,
         s\<lparr>committed := cursor',
           connections_opened := connections_opened s + 1,
           connections_closed := connections_closed s + 1\<rparr>)"
    by (simp add: execute_in_transaction_def connect_def commit_def close_def)
next
  assume "completes before args (committed s) earlier reached \<and>
    operation reached args = (Inl e, left)"
  then have pre: "completes before args (committed s) earlier reached"
    and raises: "operation reached args = (Inl e, left)"
    by simp_all
  have "run_operations (before @ operation # after) (committed s) args [] = (Inl e, left)"
    using pre raises by (rule run_operations_raises)
  then show "execute_in_transaction (before @ operation # after) args s =
        (Inl e,
         s\<lparr>connections_opened := connections_opened s + 1,
           connections_closed := connections_closed s + 1\<rparr>)"
    by (simp add: execute_in_transaction_def connect_def rollback_def close_def)
qed

lemma withdraw_first: "withdraw 1 30 shop () = (Inr 70, shop\<lparr>Customers := (Customers shop)(1 \<mapsto> Some 70)\<rparr>)"
  by (simp add: withdraw_def debit_source_customer_def shop_def balance_def
      UPDATE_Customers_CreditLimit_def)

lemma withdraw_second: "withdraw 1 30 (shop\<lparr>Customers := (Customers shop)(1 \<mapsto> Some 70)\<rparr>) () =
    (Inr 40, shop\<lparr>Customers := (Customers shop)(1 \<mapsto> Some 40)\<rparr>)"
  by (simp add: withdraw_def debit_source_customer_def shop_def balance_def
      UPDATE_Customers_CreditLimit_def)

lemma withdraw_too_much: "withdraw 1 100 (shop\<lparr>Customers := (Customers shop)(1 \<mapsto> Some 70)\<rparr>) () =
    (Inl (ValueError (InsufficientCredit 70 100)), shop\<lparr>Customers := (Customers shop)(1 \<mapsto> Some 70)\<rparr>)"
  by (simp add: withdraw_def debit_source_customer_def shop_def balance_def
      UPDATE_Customers_CreditLimit_def)

theorem execute_in_transaction_commits_or_rolls_back_witness:
  "completes [withdraw 1 30, withdraw 1 30] () (committed console) [70, 40]
     (shop\<lparr>Customers := (Customers shop)(1 \<mapsto> Some 40)\<rparr>) \<and>
   execute_in_transaction [withdraw 1 30, withdraw 1 30] () console =
     (Inr [70, 40],
      console\<lparr>committed := shop\<lparr>Customers := (Customers shop)(1 \<mapsto> Some 40)\<rparr>,
              connections_opened := 1, connections_closed := 1\<rparr>) \<and>
   completes [withdraw 1 30] () (committed console) [70]
     (shop\<lparr>Customers := (Customers shop)(1 \<mapsto> Some 70)\<rparr>) \<and>
   withdraw 1 100 (shop\<lparr>Customers := (Customers shop)(1 \<mapsto> Some 70)\<rparr>) () =
     (Inl (ValueError (InsufficientCredit 70 100)),
      shop\<lparr>Customers := (Customers shop)(1 \<mapsto> Some 70)\<rparr>) \<and>
   execute_in_transaction ([withdraw 1 30] @ withdraw 1 100 # [read_balance 1]) () console =
     (Inl (ValueError (InsufficientCredit 70 100)),
      console\<lparr>connections_opened := 1, connections_closed := 1\<rparr>)"
proof -
  have all: "completes [withdraw 1 30, withdraw 1 30] () (committed console) [70, 40]
     (shop\<lparr>Customers := (Customers shop)(1 \<mapsto> Some 40)\<rparr>)"
    unfolding console_def store.simps
    by (rule completes_Cons [where operation = "withdraw 1 30"], rule withdraw_first,
        rule completes_Cons [where operation = "withdraw 1 30"], rule withdraw_second, rule completes_Nil)
  have first: "completes [withdraw 1 30] () (committed console) [70]
     (shop\<lparr>Customers := (Customers shop)(1 \<mapsto> Some 70)\<rparr>)"
    unfolding console_def store.simps
    by (rule completes_Cons [where operation = "withdraw 1 30"], rule withdraw_first, rule completes_Nil)
  from all first withdraw_too_much
    execute_in_transaction_commits_or_rolls_back
      [where operations = "[withdraw 1 30, withdraw 1 30]" and args = "()" and s = console
         and results = "[70, 40]"
         and cursor' = "shop\<lparr>Customers := (Customers shop)(1 \<mapsto> Some 40)\<rparr>"
         and before = "[withdraw 1 30]" and earlier = "[70]"
         and reached = "shop\<lparr>Customers := (Customers shop)(1 \<mapsto> Some 70)\<rparr>"
         and operation = "withdraw 1 100" and e = "ValueError (InsufficientCredit 70 100)"
         and left = "shop\<lparr>Customers := (Customers shop)(1 \<mapsto> Some 70)\<rparr>"
         and after = "[read_balance 1]"]
  show ?thesis by (simp add: console_def)
qed

section \<open>Properties of the credit transfer\<close>

text \<open>
  What \<^verbatim>\<open>_ensure_transaction_log_table\<close> leaves: one more connection opened and
  closed, and the table created and committed when it was missing and the store allows
  the creation; nothing else changes.
\<close>

lemma ensure_transaction_log_table_result:
  "ensure_transaction_log_table s =
     s\<lparr>committed :=
         (if TransactionLog (committed s) = None \<and> MayCreateTable (committed s)
          then (committed s)\<lparr>TransactionLog := Some []\<rparr> else committed s),
       connections_opened := connections_opened s + 1,
       connections_closed := connections_closed s + 1\<rparr>"
  by (simp add: ensure_transaction_log_table_def CREATE_TransactionLog_IF_NOT_EXISTS_def
      connect_def commit_def close_def split: option.splits)

lemma ensure_transaction_log_table_frame [simp]:
  "Customers (committed (ensure_transaction_log_table s)) = Customers (committed s)"
  "Products (committed (ensure_transaction_log_table s)) = Products (committed s)"
  "Orders (committed (ensure_transaction_log_table s)) = Orders (committed s)"
  "OrdersIdentity (committed (ensure_transaction_log_table s)) = OrdersIdentity (committed s)"
  "OrderItems (committed (ensure_transaction_log_table s)) = OrderItems (committed s)"
  "MayCreateTable (committed (ensure_transaction_log_table s)) = MayCreateTable (committed s)"
  "audit_entries (committed (ensure_transaction_log_table s)) = audit_entries (committed s)"
  "TransactionLog (committed (ensure_transaction_log_table s)) =
     (if TransactionLog (committed s) = None \<and> \<not> MayCreateTable (committed s) then None
      else Some (audit_entries (committed s)))"
  "connections_opened (ensure_transaction_log_table s) = connections_opened s + 1"
  "connections_closed (ensure_transaction_log_table s) = connections_closed s + 1"
  "stdout (ensure_transaction_log_table s) = stdout s"
  by (auto simp: ensure_transaction_log_table_result audit_entries_def)

text \<open>
  The transfer, unfolded: the log table is ensured first; then the transaction either
  fails (unknown source, insufficient credit, a log table that is still missing, or the
  foreign key of the log entry when the target does not exist) and leaves what the first
  connection committed, or commits the debit, the credit and the log entry together.
\<close>

lemma transfer_customer_credit_unfold:
  "transfer_customer_credit f t a s =
     (let d = committed (ensure_transaction_log_table s);
          base = s\<lparr>connections_opened := connections_opened s + 2,
                   connections_closed := connections_closed s + 2\<rparr>
      in case debit_source_customer d f a of
           (Inl e, d1) \<Rightarrow>
             (False, base\<lparr>committed := d, stdout := stdout s @ [TransactionFailed e]\<rparr>)
         | (Inr u, d1) \<Rightarrow>
            (case log_transaction (snd (credit_target_customer d1 t a)) f t a of
               (Inl e, d2) \<Rightarrow>
                 (False, base\<lparr>committed := d, stdout := stdout s @ [TransactionFailed e]\<rparr>)
             | (Inr u, d2) \<Rightarrow> (True, base\<lparr>committed := d2\<rparr>)))"
  by (simp add: transfer_customer_credit_def execute_in_transaction_def
      ensure_transaction_log_table_result connect_def commit_def rollback_def close_def
      credit_target_customer_def Let_def split: prod.splits sum.splits)

lemma UPDATE_Customers_CreditLimit_frame [simp]:
  "Products (UPDATE_Customers_CreditLimit g c d) = Products d"
  "Orders (UPDATE_Customers_CreditLimit g c d) = Orders d"
  "OrdersIdentity (UPDATE_Customers_CreditLimit g c d) = OrdersIdentity d"
  "OrderItems (UPDATE_Customers_CreditLimit g c d) = OrderItems d"
  "TransactionLog (UPDATE_Customers_CreditLimit g c d) = TransactionLog d"
  "MayCreateTable (UPDATE_Customers_CreditLimit g c d) = MayCreateTable d"
  by (simp_all add: UPDATE_Customers_CreditLimit_def split: option.splits)

lemma Customers_UPDATE_Customers_CreditLimit:
  "Customers (UPDATE_Customers_CreditLimit g c d) c' =
     (if c' = c then map_option (map_option g) (Customers d c) else Customers d c')"
  by (simp add: UPDATE_Customers_CreditLimit_def split: option.splits)

lemma transfer_result:
  "transfer_customer_credit f t a s =
     (let d = committed (ensure_transaction_log_table s);
          base = s\<lparr>connections_opened := connections_opened s + 2,
                   connections_closed := connections_closed s + 2\<rparr>;
          failed = (\<lambda>e. (False, base\<lparr>committed := d, stdout := stdout s @ [TransactionFailed e]\<rparr>))
      in case Customers (committed s) f of
           None \<Rightarrow> failed (ValueError (CustomerDoesNotExist f))
         | Some credit \<Rightarrow>
             if balance (committed s) f < a
             then failed (ValueError (InsufficientCredit (balance (committed s) f) a))
             else if TransactionLog d = None then failed ProgrammingError
             else if Customers (committed s) t = None then failed IntegrityError
             else (True, base\<lparr>committed :=
                     (UPDATE_Customers_CreditLimit (\<lambda>credit. credit + a) t
                        (UPDATE_Customers_CreditLimit (\<lambda>credit. credit - a) f d))
                     \<lparr>TransactionLog := Some (audit_entries (committed s) @
                        [\<lparr>FromCustomerID = f, ToCustomerID = t, Amount = a\<rparr>])\<rparr>\<rparr>))"
  apply (simp add: transfer_customer_credit_unfold Let_def debit_source_customer_def
      credit_target_customer_def log_transaction_def INSERT_TransactionLog_def balance_def
      Customers_UPDATE_Customers_CreditLimit
      split: option.splits)
  apply (auto split: option.splits if_splits)
  done

lemma Customers_after_transfer:
  "fst (transfer_customer_credit f t a s) \<Longrightarrow>
   Customers (committed (snd (transfer_customer_credit f t a s))) =
   Customers (UPDATE_Customers_CreditLimit (\<lambda>credit. credit + a) t
                (UPDATE_Customers_CreditLimit (\<lambda>credit. credit - a) f (committed s)))"
  by (auto simp: transfer_result Let_def UPDATE_Customers_CreditLimit_def
      split: option.splits if_splits)

lemma failed_transfer_committed:
  "\<not> fst (transfer_customer_credit f t a s) \<Longrightarrow>
   committed (snd (transfer_customer_credit f t a s)) =
     committed (ensure_transaction_log_table s)"
  by (simp add: transfer_result Let_def split: option.splits if_splits)

text \<open>
  C2, as amended. When the source customer does not exist, or the balance read for the
  source (a NULL credit reads as 0) is less than the requested amount,
  \<^verbatim>\<open>transfer_customer_credit\<close> returns false and changes no row: the Customers table,
  the audit entries, and the Products, Orders and OrderItems tables are as before. A
  transfer never drives the credit of its source negative, and it never drives the credit
  of any customer negative when the amount is not negative: a balance that was
  non-negative before the attempt is non-negative after it.
\<close>

theorem transfer_rejected_without_mutation:
  "(Customers (committed s) from_customer_id = None \<or>
    balance (committed s) from_customer_id < amount \<longrightarrow>
      fst (transfer_customer_credit from_customer_id to_customer_id amount s) = False \<and>
      Customers (committed (snd (transfer_customer_credit from_customer_id to_customer_id amount s)))
        = Customers (committed s) \<and>
      audit_entries (committed (snd (transfer_customer_credit from_customer_id to_customer_id amount s)))
        = audit_entries (committed s) \<and>
      Products (committed (snd (transfer_customer_credit from_customer_id to_customer_id amount s)))
        = Products (committed s) \<and>
      Orders (committed (snd (transfer_customer_credit from_customer_id to_customer_id amount s)))
        = Orders (committed s) \<and>
      OrderItems (committed (snd (transfer_customer_credit from_customer_id to_customer_id amount s)))
        = OrderItems (committed s)) \<and>
   ((c = from_customer_id \<or> 0 \<le> amount) \<and> 0 \<le> balance (committed s) c \<longrightarrow>
      0 \<le> balance (committed (snd (transfer_customer_credit from_customer_id to_customer_id amount s))) c)"
proof (intro conjI impI)
  assume "(c = from_customer_id \<or> 0 \<le> amount) \<and> 0 \<le> balance (committed s) c"
  then have who: "c = from_customer_id \<or> 0 \<le> amount" and nonneg: "0 \<le> balance (committed s) c"
    by simp_all
  show "0 \<le> balance (committed (snd (transfer_customer_credit from_customer_id to_customer_id amount s))) c"
  proof (cases "fst (transfer_customer_credit from_customer_id to_customer_id amount s)")
    case False
    then show ?thesis using nonneg
      by (simp add: failed_transfer_committed balance_def)
  next
    case True
    then have enough: "\<not> balance (committed s) from_customer_id < amount"
      by (simp add: transfer_result Let_def split: option.splits if_splits)
    from who nonneg enough show ?thesis
      unfolding balance_def Customers_after_transfer [OF True]
      by (auto simp: Customers_UPDATE_Customers_CreditLimit split: option.splits)
  qed
qed (auto simp: transfer_result Let_def balance_def split: option.splits)

theorem transfer_rejected_without_mutation_witness:
  "balance (committed console) 1 < 200 \<and>
   fst (transfer_customer_credit 1 2 200 console) = False \<and>
   Customers (committed (snd (transfer_customer_credit 1 2 200 console))) = Customers shop \<and>
   audit_entries (committed (snd (transfer_customer_credit 1 2 200 console))) = [] \<and>
   0 \<le> balance (committed console) 1 \<and>
   0 \<le> balance (committed (snd (transfer_customer_credit 1 2 200 console))) 1"
  using transfer_rejected_without_mutation [of console 1 200 2 1]
  by (simp add: console_def shop_def balance_def audit_entries_def)

text \<open>
  The claim C2 as first stated ends with: a transfer can never drive a credit negative.
  \<^verbatim>\<open>transfer_customer_credit\<close> accepts a negative amount: the transfer of -50 from
  customer 1 to customer 2 passes the check of the source (100 is not less than -50) and
  succeeds; customer 2, who held 20, is left with -30.
\<close>

theorem negative_transfer_counterexample:
  "fst (transfer_customer_credit 1 2 (- 50) console) = True \<and>
   Customers (committed console) 2 = Some (Some 20) \<and>
   Customers (committed (snd (transfer_customer_credit 1 2 (- 50) console))) 2 =
     Some (Some (- 30)) \<and>
   balance (committed (snd (transfer_customer_credit 1 2 (- 50) console))) 2 < 0"
  by (simp add: transfer_result Let_def console_def shop_def balance_def
      Customers_UPDATE_Customers_CreditLimit)

text \<open>
  C3, as amended. For every successful transfer of amount \<open>a\<close> from customer \<open>x\<close> to a
  different customer \<open>y\<close>, both holding a credit that is not NULL, the sum of the two
  balances is conserved, the balance of \<open>x\<close> decreases by \<open>a\<close> and the balance of \<open>y\<close>
  increases by \<open>a\<close>.
\<close>

theorem transfer_conserves_credit:
  assumes "fst (transfer_customer_credit x y a s) = True"
    and "x \<noteq> y"
    and "Customers (committed s) x = Some (Some credit_x)"
    and "Customers (committed s) y = Some (Some credit_y)"
  shows "balance (committed (snd (transfer_customer_credit x y a s))) x +
         balance (committed (snd (transfer_customer_credit x y a s))) y =
         balance (committed s) x + balance (committed s) y \<and>
         balance (committed (snd (transfer_customer_credit x y a s))) x =
         balance (committed s) x - a \<and>
         balance (committed (snd (transfer_customer_credit x y a s))) y =
         balance (committed s) y + a"
proof -
  from assms(1) have ok: "fst (transfer_customer_credit x y a s)" by simp
  from assms(2-4) show ?thesis
    unfolding balance_def Customers_after_transfer [OF ok]
    by (simp add: Customers_UPDATE_Customers_CreditLimit)
qed

theorem transfer_conserves_credit_witness:
  "fst (transfer_customer_credit 1 2 50 console) = True \<and> (1::int) \<noteq> 2 \<and>
   Customers (committed console) 1 = Some (Some 100) \<and>
   Customers (committed console) 2 = Some (Some 20) \<and>
   balance (committed (snd (transfer_customer_credit 1 2 50 console))) 1 = 50 \<and>
   balance (committed (snd (transfer_customer_credit 1 2 50 console))) 2 = 70"
proof -
  have ok: "fst (transfer_customer_credit 1 2 50 console) = True"
    by (simp add: transfer_result Let_def console_def shop_def balance_def)
  have x: "Customers (committed console) 1 = Some (Some 100)"
    and y: "Customers (committed console) 2 = Some (Some 20)"
    by (simp_all add: console_def shop_def)
  from transfer_conserves_credit [OF ok _ x y] ok x y show ?thesis
    by (simp add: balance_def)
qed

text \<open>
  The claim C3 as first stated also covers a transfer from a customer to themselves: it
  succeeds, and the balance is what it was, not 50 less.
\<close>

theorem self_transfer_counterexample:
  "fst (transfer_customer_credit 1 1 50 console) = True \<and>
   balance (committed console) 1 = 100 \<and>
   balance (committed (snd (transfer_customer_credit 1 1 50 console))) 1 = 100 \<and>
   balance (committed (snd (transfer_customer_credit 1 1 50 console))) 1
     \<noteq> balance (committed console) 1 - 50"
  by (simp add: transfer_result Let_def console_def shop_def balance_def
      Customers_UPDATE_Customers_CreditLimit)

text \<open>
  C8, as amended. The check of the amount is in the console entry: for an amount that is
  not positive \<^verbatim>\<open>transfer_credit\<close> prints that the amount must be positive and returns
  with the store untouched and no connection opened. \<^verbatim>\<open>transfer_customer_credit\<close>
  itself does not look at the sign of the amount: for every amount it opens, and closes,
  two connections.
\<close>

theorem amount_checked_by_console:
  "(amount \<le> 0 \<longrightarrow>
      transfer_credit from_customer_id to_customer_id amount s =
        s\<lparr>stdout := stdout s @ [AmountMustBePositive]\<rparr>) \<and>
   connections_opened (snd (transfer_customer_credit from_customer_id to_customer_id amount s)) =
     connections_opened s + 2 \<and>
   connections_closed (snd (transfer_customer_credit from_customer_id to_customer_id amount s)) =
     connections_closed s + 2"
  by (simp add: transfer_credit_def transfer_result Let_def split: option.splits)

theorem amount_checked_by_console_witness:
  "(- 5 :: int) \<le> 0 \<and>
   transfer_credit 1 2 (- 5) console = console\<lparr>stdout := [AmountMustBePositive]\<rparr> \<and>
   connections_opened (snd (transfer_customer_credit 1 2 (- 5) console)) = 2"
  using amount_checked_by_console [of "- 5" 1 2 console]
  by (simp add: console_def)

text \<open>
  The claim C8 as first stated is about \<^verbatim>\<open>transfer_customer_credit\<close>: called with the
  amount -5 it opens its connections, moves 5 from customer 2 to customer 1, records the
  entry and returns true.
\<close>

theorem negative_amount_counterexample:
  "fst (transfer_customer_credit 1 2 (- 5) console) = True \<and>
   connections_opened console = 0 \<and>
   connections_opened (snd (transfer_customer_credit 1 2 (- 5) console)) = 2 \<and>
   Customers (committed (snd (transfer_customer_credit 1 2 (- 5) console))) 1 = Some (Some 105) \<and>
   Customers (committed (snd (transfer_customer_credit 1 2 (- 5) console))) 2 = Some (Some 15) \<and>
   audit_entries (committed (snd (transfer_customer_credit 1 2 (- 5) console))) =
     [\<lparr>FromCustomerID = 1, ToCustomerID = 2, Amount = - 5\<rparr>]"
  by (simp add: transfer_result Let_def console_def shop_def balance_def audit_entries_def
      Customers_UPDATE_Customers_CreditLimit)

text \<open>
  C9. When the source customer exists and the stored credit is NULL, the balance is read
  as 0: for every positive amount the debit step raises the insufficient-credit error
  with 0 as the available credit, before any statement that writes, and
  \<^verbatim>\<open>transfer_customer_credit\<close> returns false, having printed that error; the committed
  contents are those the first connection left, with the customers and the audit entries
  as before.
\<close>

theorem null_credit_read_as_zero:
  assumes "Customers (committed s) from_customer_id = Some None" and "0 < amount"
  shows "debit_source_customer (committed (ensure_transaction_log_table s))
           from_customer_id amount =
           (Inl (ValueError (InsufficientCredit 0 amount)),
            committed (ensure_transaction_log_table s)) \<and>
         transfer_customer_credit from_customer_id to_customer_id amount s =
           (False,
            s\<lparr>committed := committed (ensure_transaction_log_table s),
              connections_opened := connections_opened s + 2,
              connections_closed := connections_closed s + 2,
              stdout := stdout s @ [TransactionFailed (ValueError (InsufficientCredit 0 amount))]\<rparr>) \<and>
         Customers (committed (ensure_transaction_log_table s)) = Customers (committed s) \<and>
         audit_entries (committed (ensure_transaction_log_table s)) =
           audit_entries (committed s)"
  using assms
  by (simp add: transfer_result Let_def balance_def debit_source_customer_def)

theorem null_credit_read_as_zero_witness:
  "Customers (committed console) 3 = Some None \<and> (0::int) < 1 \<and>
   transfer_customer_credit 3 1 1 console =
     (False,
      \<lparr>committed = shop\<lparr>TransactionLog := Some []\<rparr>,
       connections_opened = 2, connections_closed = 2,
       stdout = [TransactionFailed (ValueError (InsufficientCredit 0 1))]\<rparr>)"
proof -
  have null: "Customers (committed console) 3 = Some None"
    by (simp add: console_def shop_def)
  from null_credit_read_as_zero [OF null, of 1 1] null show ?thesis
    by (simp add: console_def shop_def ensure_transaction_log_table_result)
qed




section \<open>Properties of the order placement\<close>

text \<open>
  What the loop over the items has done when it ends without raising: one row was
  appended to OrderItems for each item, in order, carrying the identity of the order, the
  product and quantity of the item and the price the product has in the working copy;
  the total returned is the accumulator plus the sum of quantity times unit price over
  these rows.
\<close>

lemma create_order_items_completes:
  "create_order_items cursor order_id items_data total_amount = (Inr summed, cursor') \<Longrightarrow>
   \<exists>rows. cursor' = cursor\<lparr>OrderItems := OrderItems cursor @ rows\<rparr> \<and>
     summed = total_amount + sum_list (map (\<lambda>row. Quantity row * UnitPrice row) rows) \<and>
     list_all2 (\<lambda>row item. OrderID row = order_id \<and> ProductID row = product_id item \<and>
        Quantity row = quantity item \<and>
        (\<exists>product. Products cursor (product_id item) = Some product \<and>
           Price product = Some (UnitPrice row))) rows items_data"
proof (induction items_data arbitrary: cursor total_amount)
  case Nil
  then show ?case by simp
next
  case (Cons item items_data)
  from Cons.prems obtain product price where
    product: "Products cursor (product_id item) = Some product" and
    price: "Price product = Some price"
    by (auto split: option.splits)
  let ?row = "\<lparr>OrderID = order_id, ProductID = product_id item,
                Quantity = quantity item, UnitPrice = price\<rparr>"
  from Cons.prems product price
  have "create_order_items (INSERT_OrderItems ?row cursor) order_id items_data
          (total_amount + price * quantity item) = (Inr summed, cursor')"
    by simp
  from Cons.IH [OF this] obtain rows where
    rows: "cursor' = (INSERT_OrderItems ?row cursor)
             \<lparr>OrderItems := OrderItems (INSERT_OrderItems ?row cursor) @ rows\<rparr>"
          "summed = total_amount + price * quantity item +
             sum_list (map (\<lambda>row. Quantity row * UnitPrice row) rows)"
          "list_all2 (\<lambda>row item. OrderID row = order_id \<and> ProductID row = product_id item \<and>
             Quantity row = quantity item \<and>
             (\<exists>product. Products (INSERT_OrderItems ?row cursor) (product_id item) = Some product \<and>
               Price product = Some (UnitPrice row))) rows items_data"
    by blast
  have "cursor' = cursor\<lparr>OrderItems := OrderItems cursor @ (?row # rows)\<rparr>"
    using rows(1) by (simp add: INSERT_OrderItems_def)
  moreover have "summed = total_amount +
      sum_list (map (\<lambda>row. Quantity row * UnitPrice row) (?row # rows))"
    using rows(2) by (simp add: mult.commute)
  moreover have "list_all2 (\<lambda>row item. OrderID row = order_id \<and> ProductID row = product_id item \<and>
        Quantity row = quantity item \<and>
        (\<exists>product. Products cursor (product_id item) = Some product \<and>
           Price product = Some (UnitPrice row))) (?row # rows) (item # items_data)"
    using rows(3) product price by (simp add: INSERT_OrderItems_def)
  ultimately show ?case by blast
qed

lemma place_order_with_inventory_check_unfold:
  "place_order_with_inventory_check customer_id order_items_data s =
     (let order_id = OrdersIdentity (committed s) + 1;
          cursor1 = (committed s)\<lparr>Orders := (Orders (committed s))(order_id \<mapsto>
              \<lparr>CustomerID = customer_id, TotalAmount = 0, OrderStatus = ''processing''\<rparr>),
            OrdersIdentity := order_id\<rparr>;
          unchanged = s\<lparr>connections_opened := connections_opened s + 1,
                        connections_closed := connections_closed s + 1\<rparr>
      in case check_inventory_and_reserve (committed s) order_items_data of
           Inl e \<Rightarrow> (Inl e, unchanged)
         | Inr u \<Rightarrow>
             (case create_order_items cursor1 order_id order_items_data 0 of
                (Inl e, cursor2) \<Rightarrow> (Inl e, unchanged)
              | (Inr total_amount, cursor2) \<Rightarrow>
                  (Inr order_id,
                   unchanged\<lparr>committed := UPDATE_Orders_TotalAmount total_amount order_id cursor2\<rparr>)))"
  by (simp add: place_order_with_inventory_check_def connect_def commit_def rollback_def
      close_def INSERT_Orders_def Let_def split: sum.splits prod.splits)

text \<open>
  C4. After every successful \<^verbatim>\<open>place_order_with_inventory_check\<close> (on a store whose next
  identity value is not in use), the TotalAmount stored for the new order equals the sum,
  over the OrderItems rows of that order, of Quantity times UnitPrice; these rows are the
  requested items, in order, and the UnitPrice of each is the price of its product read in
  the same transaction.
\<close>

theorem order_total_is_sum_of_items:
  assumes fresh: "identity_fresh (committed s)"
    and placed: "place_order_with_inventory_check customer_id order_items_data s = (Inr order_id, s')"
  shows "map_option TotalAmount (Orders (committed s') order_id) =
           Some (sum_list (map (\<lambda>row. Quantity row * UnitPrice row)
                   (SELECT_OrderItems order_id (committed s')))) \<and>
         list_all2 (\<lambda>row item. ProductID row = product_id item \<and> Quantity row = quantity item \<and>
             (\<exists>product. Products (committed s) (product_id item) = Some product \<and>
                Price product = Some (UnitPrice row)))
           (SELECT_OrderItems order_id (committed s')) order_items_data"
proof -
  let ?cursor1 = "(committed s)\<lparr>Orders := (Orders (committed s))(OrdersIdentity (committed s) + 1 \<mapsto>
              \<lparr>CustomerID = customer_id, TotalAmount = 0, OrderStatus = ''processing''\<rparr>),
            OrdersIdentity := OrdersIdentity (committed s) + 1\<rparr>"
  from placed obtain summed cursor2 where
    oid: "order_id = OrdersIdentity (committed s) + 1" and
    loop: "create_order_items ?cursor1 order_id order_items_data 0 = (Inr summed, cursor2)" and
    after: "committed s' = UPDATE_Orders_TotalAmount summed order_id cursor2"
    by (auto simp: place_order_with_inventory_check_unfold Let_def split: sum.splits prod.splits)
  from create_order_items_completes [OF loop] obtain rows where
    cursor2: "cursor2 = ?cursor1\<lparr>OrderItems := OrderItems ?cursor1 @ rows\<rparr>" and
    sum: "summed = 0 + sum_list (map (\<lambda>row. Quantity row * UnitPrice row) rows)" and
    rows: "list_all2 (\<lambda>row item. OrderID row = order_id \<and> ProductID row = product_id item \<and>
        Quantity row = quantity item \<and>
        (\<exists>product. Products ?cursor1 (product_id item) = Some product \<and>
           Price product = Some (UnitPrice row))) rows order_items_data"
    by blast
  from rows have "list_all (\<lambda>row. OrderID row = order_id) rows"
    by (induction rows order_items_data rule: list_all2_induct) simp_all
  then have mine: "filter (\<lambda>row. OrderID row = order_id) rows = rows"
    by (induction rows) simp_all
  from fresh oid have old: "filter (\<lambda>row. OrderID row = order_id) (OrderItems (committed s)) = []"
    by (simp add: identity_fresh_def list_all_iff filter_empty_conv)
  have select: "SELECT_OrderItems order_id (committed s') = rows"
    using after cursor2 mine old oid
    by (simp add: SELECT_OrderItems_def UPDATE_Orders_TotalAmount_def)
  have stored: "map_option TotalAmount (Orders (committed s') order_id) = Some summed"
    using after cursor2 oid by (simp add: UPDATE_Orders_TotalAmount_def)
  have "list_all2 (\<lambda>row item. ProductID row = product_id item \<and> Quantity row = quantity item \<and>
             (\<exists>product. Products (committed s) (product_id item) = Some product \<and>
                Price product = Some (UnitPrice row))) rows order_items_data"
    using rows by (rule list_all2_mono) simp
  with select stored sum show ?thesis by simp
qed


lemma place_two_items:
  "place_order_with_inventory_check 1
     [\<lparr>product_id = 10, quantity = 2\<rparr>, \<lparr>product_id = 11, quantity = 1\<rparr>] console =
   (Inr 4,
    console\<lparr>committed := shop
       \<lparr>Orders := (Orders shop)(4 \<mapsto>
          \<lparr>CustomerID = 1, TotalAmount = 2500, OrderStatus = ''processing''\<rparr>),
        OrdersIdentity := 4,
        OrderItems := OrderItems shop @
          [\<lparr>OrderID = 4, ProductID = 10, Quantity = 2, UnitPrice = 1000\<rparr>,
           \<lparr>OrderID = 4, ProductID = 11, Quantity = 1, UnitPrice = 500\<rparr>]\<rparr>,
      connections_opened := 1, connections_closed := 1\<rparr>)"
  by (simp add: place_order_with_inventory_check_unfold Let_def console_def shop_def
      INSERT_OrderItems_def UPDATE_Orders_TotalAmount_def)

theorem order_total_is_sum_of_items_witness:
  "identity_fresh (committed console) \<and>
   fst (place_order_with_inventory_check 1
     [\<lparr>product_id = 10, quantity = 2\<rparr>, \<lparr>product_id = 11, quantity = 1\<rparr>] console) = Inr 4 \<and>
   map_option TotalAmount
     (Orders (committed (snd (place_order_with_inventory_check 1
        [\<lparr>product_id = 10, quantity = 2\<rparr>, \<lparr>product_id = 11, quantity = 1\<rparr>] console))) 4) =
   Some (sum_list (map (\<lambda>row. Quantity row * UnitPrice row)
     (SELECT_OrderItems 4 (committed (snd (place_order_with_inventory_check 1
        [\<lparr>product_id = 10, quantity = 2\<rparr>, \<lparr>product_id = 11, quantity = 1\<rparr>] console))))))"
proof -
  have fresh: "identity_fresh (committed console)"
    by (simp add: identity_fresh_def console_def shop_def)
  from order_total_is_sum_of_items [OF fresh place_two_items] fresh show ?thesis
    by (simp add: place_two_items)
qed

text \<open>
  C5. When the availability check of a placement passes, so that the Order row is
  inserted in the working copy, and the placement then raises, the exception is the one
  raised by the item stage and the transaction is rolled back: the committed contents are
  those from before the call, and (the attempted identity being unused before) there is no
  Order row with the attempted identity and no OrderItems row for it.
\<close>

theorem failed_placement_leaves_no_order:
  assumes checked: "check_inventory_and_reserve (committed s) order_items_data = Inr ()"
    and failed: "place_order_with_inventory_check customer_id order_items_data s = (Inl e, s')"
  shows "Orders (snd (INSERT_Orders
             \<lparr>CustomerID = customer_id, TotalAmount = 0, OrderStatus = ''processing''\<rparr>
             (committed s))) (OrdersIdentity (committed s) + 1) \<noteq> None \<and>
         fst (create_order_items
           (snd (INSERT_Orders
             \<lparr>CustomerID = customer_id, TotalAmount = 0, OrderStatus = ''processing''\<rparr>
             (committed s)))
           (OrdersIdentity (committed s) + 1) order_items_data 0) = Inl e \<and>
         committed s' = committed s \<and>
         (identity_fresh (committed s) \<longrightarrow>
            Orders (committed s') (OrdersIdentity (committed s) + 1) = None \<and>
            SELECT_OrderItems (OrdersIdentity (committed s) + 1) (committed s') = [])"
  using assms
  by (auto simp: place_order_with_inventory_check_unfold Let_def INSERT_Orders_def
      identity_fresh_def SELECT_OrderItems_def list_all_iff filter_empty_conv
      split: sum.splits prod.splits)

lemma place_unpriced_item:
  "place_order_with_inventory_check 1
     [\<lparr>product_id = 10, quantity = 2\<rparr>, \<lparr>product_id = 13, quantity = 1\<rparr>] console =
   (Inl TypeError, console\<lparr>connections_opened := 1, connections_closed := 1\<rparr>)"
  by (simp add: place_order_with_inventory_check_unfold Let_def console_def shop_def
      INSERT_OrderItems_def)

theorem failed_placement_leaves_no_order_witness:
  "check_inventory_and_reserve (committed console)
     [\<lparr>product_id = 10, quantity = 2\<rparr>, \<lparr>product_id = 13, quantity = 1\<rparr>] = Inr () \<and>
   fst (place_order_with_inventory_check 1
     [\<lparr>product_id = 10, quantity = 2\<rparr>, \<lparr>product_id = 13, quantity = 1\<rparr>] console) = Inl TypeError \<and>
   identity_fresh (committed console) \<and>
   committed (snd (place_order_with_inventory_check 1
     [\<lparr>product_id = 10, quantity = 2\<rparr>, \<lparr>product_id = 13, quantity = 1\<rparr>] console)) = shop \<and>
   Orders shop 4 = None \<and> SELECT_OrderItems 4 shop = []"
proof -
  have checked: "check_inventory_and_reserve (committed console)
     [\<lparr>product_id = 10, quantity = 2\<rparr>, \<lparr>product_id = 13, quantity = 1\<rparr>] = Inr ()"
    by (simp add: console_def shop_def)
  have fresh: "identity_fresh (committed console)"
    by (simp add: identity_fresh_def console_def shop_def)
  have shop: "committed console = shop"
    by (simp add: console_def)
  have identity: "OrdersIdentity shop + 1 = 4"
    by (simp add: shop_def)
  from failed_placement_leaves_no_order [OF checked place_unpriced_item] checked fresh
  show ?thesis
    by (simp add: place_unpriced_item shop identity)
qed

section \<open>Properties of the order cancellation\<close>

lemma cancel_order_with_refund_unfold:
  "cancel_order_with_refund order_id s =
     (let counted = s\<lparr>connections_opened := connections_opened s + 1,
                      connections_closed := connections_closed s + 1\<rparr>
      in case get_order_details (committed s) order_id of
           Inl e \<Rightarrow> (False, counted\<lparr>stdout := stdout s @ [OrderCancellationFailed e]\<rparr>)
         | Inr (customer_id, total_amount) \<Rightarrow>
             (True, counted\<lparr>committed :=
                update_inventory
                  (refund_customer_credit (update_order_status (committed s) order_id)
                     customer_id total_amount) order_id\<rparr>))"
  by (simp add: cancel_order_with_refund_def connect_def commit_def rollback_def close_def
      Let_def split: sum.splits prod.splits)

text \<open>
  C7. Cancelling an order whose status is already \<^verbatim>\<open>cancelled\<close> fails with the
  already-cancelled error, and cancelling an order that does not exist fails with the
  not-found error (both are \<^verbatim>\<open>ValueError\<close>s of \<^verbatim>\<open>get_order_details\<close>);
  \<^verbatim>\<open>cancel_order_with_refund\<close> prints the reason and returns false, and the committed
  contents are untouched: no balance, no status and no product flag changes.
\<close>

theorem cancellation_guard:
  "(Orders (committed s) order_id = Some row \<and> OrderStatus row = ''cancelled'' \<longrightarrow>
      get_order_details (committed s) order_id = Inl (ValueError OrderAlreadyCancelled) \<and>
      cancel_order_with_refund order_id s =
        (False,
         s\<lparr>connections_opened := connections_opened s + 1,
           connections_closed := connections_closed s + 1,
           stdout := stdout s @ [OrderCancellationFailed (ValueError OrderAlreadyCancelled)]\<rparr>)) \<and>
   (Orders (committed s) order_id = None \<longrightarrow>
      get_order_details (committed s) order_id = Inl (ValueError (OrderDoesNotExist order_id)) \<and>
      cancel_order_with_refund order_id s =
        (False,
         s\<lparr>connections_opened := connections_opened s + 1,
           connections_closed := connections_closed s + 1,
           stdout := stdout s @
             [OrderCancellationFailed (ValueError (OrderDoesNotExist order_id))]\<rparr>))"
  by (simp add: cancel_order_with_refund_unfold get_order_details_def Let_def)

theorem cancellation_guard_witness:
  "Orders (committed console) 3 =
     Some \<lparr>CustomerID = 2, TotalAmount = 500, OrderStatus = ''cancelled''\<rparr> \<and>
   cancel_order_with_refund 3 console =
     (False, \<lparr>committed = shop, connections_opened = 1, connections_closed = 1,
              stdout = [OrderCancellationFailed (ValueError OrderAlreadyCancelled)]\<rparr>) \<and>
   Orders (committed console) 9 = None \<and>
   cancel_order_with_refund 9 console =
     (False, \<lparr>committed = shop, connections_opened = 1, connections_closed = 1,
              stdout = [OrderCancellationFailed (ValueError (OrderDoesNotExist 9))]\<rparr>)"
proof -
  have cancelled: "Orders (committed console) 3 =
     Some \<lparr>CustomerID = 2, TotalAmount = 500, OrderStatus = ''cancelled''\<rparr>"
    and missing: "Orders (committed console) 9 = None"
    by (simp_all add: console_def shop_def)
  from cancellation_guard
         [of console 3 "\<lparr>CustomerID = 2, TotalAmount = 500, OrderStatus = ''cancelled''\<rparr>"]
       cancellation_guard [of console 9] cancelled missing
  show ?thesis by (simp add: console_def)
qed

lemma Products_mark_in_stock:
  "Products (mark_in_stock cursor items) product =
     (if product \<in> ProductID ` set items
      then map_option (\<lambda>row. row\<lparr>InStock := True\<rparr>) (Products cursor product)
      else Products cursor product)"
proof (induction items arbitrary: cursor)
  case Nil
  show ?case by simp
next
  case (Cons item items)
  show ?case
    by (auto simp: Cons.IH UPDATE_Products_InStock_def split: option.splits)
qed

lemma mark_in_stock_frame:
  "Customers (mark_in_stock cursor items) = Customers cursor \<and>
   Orders (mark_in_stock cursor items) = Orders cursor \<and>
   OrderItems (mark_in_stock cursor items) = OrderItems cursor \<and>
   OrdersIdentity (mark_in_stock cursor items) = OrdersIdentity cursor \<and>
   TransactionLog (mark_in_stock cursor items) = TransactionLog cursor"
  by (induction items arbitrary: cursor)
     (simp_all add: UPDATE_Products_InStock_def split: option.splits)

text \<open>What a successful cancellation commits.\<close>

lemma cancel_order_with_refund_effects:
  assumes "fst (cancel_order_with_refund order_id s)"
  shows "\<exists>row. Orders (committed s) order_id = Some row \<and> OrderStatus row \<noteq> ''cancelled'' \<and>
     Orders (committed (snd (cancel_order_with_refund order_id s))) =
       (Orders (committed s))(order_id \<mapsto> row\<lparr>OrderStatus := ''cancelled''\<rparr>) \<and>
     Customers (committed (snd (cancel_order_with_refund order_id s))) =
       Customers (UPDATE_Customers_CreditLimit (\<lambda>credit. credit + TotalAmount row)
                    (CustomerID row) (committed s)) \<and>
     (\<forall>product. Products (committed (snd (cancel_order_with_refund order_id s))) product =
        (if product \<in> ProductID ` set (SELECT_OrderItems order_id (committed s))
         then map_option (\<lambda>row. row\<lparr>InStock := True\<rparr>) (Products (committed s) product)
         else Products (committed s) product))"
  using assms
  by (auto simp: cancel_order_with_refund_unfold get_order_details_def Let_def
      update_inventory_def refund_customer_credit_def update_order_status_def
      mark_in_stock_frame Products_mark_in_stock SELECT_OrderItems_def
      UPDATE_Orders_OrderStatus_def UPDATE_Customers_CreditLimit_def
      split: option.splits if_splits)

text \<open>
  C6 asks that every successful cancellation increases the balance of the customer by
  the total of the order. Order 2 of the sample store belongs to customer 3, whose credit
  is NULL (read as 0 by the transfer): the cancellation returns true and sets the status
  to \<^verbatim>\<open>cancelled\<close>, but \<^verbatim>\<open>CreditLimit + ?\<close> on NULL is NULL, so the credit is still NULL
  and the balance still 0: the refund of 700 is lost.
\<close>

theorem refund_lost_on_null_credit:
  "fst (cancel_order_with_refund 2 console) = True \<and>
   Orders (committed console) 2 =
     Some \<lparr>CustomerID = 3, TotalAmount = 700, OrderStatus = ''processing''\<rparr> \<and>
   Customers (committed console) 3 = Some None \<and>
   balance (committed console) 3 = 0 \<and>
   Orders (committed (snd (cancel_order_with_refund 2 console))) 2 =
     Some \<lparr>CustomerID = 3, TotalAmount = 700, OrderStatus = ''cancelled''\<rparr> \<and>
   Customers (committed (snd (cancel_order_with_refund 2 console))) 3 = Some None \<and>
   balance (committed (snd (cancel_order_with_refund 2 console))) 3 = 0"
  by (simp add: cancel_order_with_refund_unfold get_order_details_def Let_def
      update_inventory_def refund_customer_credit_def update_order_status_def
      mark_in_stock_frame UPDATE_Orders_OrderStatus_def UPDATE_Customers_CreditLimit_def
      console_def shop_def balance_def)

text \<open>On a stored credit the refund arrives: customer 1 holds 100 + 2500 afterwards.\<close>

lemma refund_on_stored_credit:
  "fst (cancel_order_with_refund 1 console) = True \<and>
   Customers (committed (snd (cancel_order_with_refund 1 console))) 1 = Some (Some 2600)"
  by (simp add: cancel_order_with_refund_unfold get_order_details_def Let_def
      update_inventory_def refund_customer_credit_def update_order_status_def
      mark_in_stock_frame UPDATE_Orders_OrderStatus_def UPDATE_Customers_CreditLimit_def
      console_def shop_def balance_def)

end
